theory Spec2Isabelle
  imports Main "HOL-Library.AList"
begin

text \<open>
  The plugin exists in two variants with the same tools. The structured-file variant is
  \<open>src/index.ts\<close>: it keeps the registry in \<open>coworkers.json\<close> and registers
  \<open>create_coworker\<close>, \<open>list_coworkers\<close> and \<open>tell_coworker\<close>. The embedded-table variant
  is the listing that follows the readme in \<open>src/README.md\<close>: it keeps the registry in a
  table \<open>coworkers\<close> of \<open>coworkers.db\<close> and registers \<open>remove_coworker\<close> as well. A
  constant of the first carries the suffix \<open>_file\<close>, one of the second \<open>_db\<close>.
\<close>

section \<open>Strings and the name normalizer\<close>

text \<open>
  Strings are byte strings. \<open>String.prototype.toLowerCase\<close> is modelled on the ASCII
  letters: \<open>A\<close>..\<open>Z\<close> (codes 65..90) move to \<open>a\<close>..\<open>z\<close> (add 32), every other byte
  stays. Both variants of the plugin normalize a display name with it.
\<close>

definition toLowerCase_char :: "char \<Rightarrow> char" where
  "toLowerCase_char c =
     (let n = (of_char c :: nat) in if 65 \<le> n \<and> n \<le> 90 then char_of (n + 32) else c)"

definition toLowerCase :: "string \<Rightarrow> string" where
  "toLowerCase s = map toLowerCase_char s"



section \<open>Data model\<close>

text \<open>\<open>interface Coworker\<close>; the optional \<open>parentId\<close> is \<open>None\<close> when undefined.\<close>

record Coworker =
  sessionId :: string
  agentType :: string
  createdAt :: string
  parentId :: "string option"

text \<open>
  \<open>interface CoworkerStorage\<close> is a plain JavaScript object used as a dictionary. Its
  own properties are kept in insertion order (\<open>props\<close>, what \<open>Object.entries\<close> and
  \<open>JSON.stringify\<close> see). Both variants build it from the literal \<open>{}\<close>, which inherits
  from \<open>Object.prototype\<close>: a read \<open>coworkers[name]\<close> of a name that is not an own
  property finds what the prototype chain has under that name. Assigning to the key
  \<open>__proto__\<close> does not create an own property but replaces the prototype by the
  assigned record (\<open>proto\<close>), whose own fields are then inherited too.
\<close>

record CoworkerStorage =
  props :: "(string \<times> Coworker) list"
  proto :: "Coworker option"

definition emptyObject :: CoworkerStorage where
  "emptyObject = \<lparr>props = [], proto = None\<rparr>"

text \<open>
  What a property read \<open>coworkers[name]\<close> can yield: \<open>undefined\<close>, a coworker record, a
  string (a field of a record that became the prototype), or a function or object of
  \<open>Object.prototype\<close> (\<open>Builtin\<close>). The names are those of the properties of
  \<open>Object.prototype\<close>; \<open>__proto__\<close> is its accessor for the prototype itself.
\<close>

datatype jsval = Undefined | Obj Coworker | Str string | Builtin

definition object_prototype_names :: "string list" where
  "object_prototype_names =
     [''constructor'', ''__defineGetter__'', ''__defineSetter__'', ''hasOwnProperty'',
      ''__lookupGetter__'', ''__lookupSetter__'', ''isPrototypeOf'', ''propertyIsEnumerable'',
      ''toString'', ''valueOf'', ''toLocaleString'']"

definition getProp :: "CoworkerStorage \<Rightarrow> string \<Rightarrow> jsval" where
  "getProp obj k =
     (case map_of (props obj) k of
        Some c \<Rightarrow> Obj c
      | None \<Rightarrow>
          (case proto obj of
             None \<Rightarrow>
               if k = ''__proto__'' \<or> k \<in> set object_prototype_names then Builtin
               else Undefined
           | Some p \<Rightarrow>
               if k = ''sessionId'' then Str (sessionId p)
               else if k = ''agentType'' then Str (agentType p)
               else if k = ''createdAt'' then Str (createdAt p)
               else if k = ''parentId'' then
                 (case parentId p of Some s \<Rightarrow> Str s | None \<Rightarrow> Undefined)
               else if k = ''__proto__'' then Obj p
               else if k \<in> set object_prototype_names then Builtin
               else Undefined))"

definition setProp :: "CoworkerStorage \<Rightarrow> string \<Rightarrow> Coworker \<Rightarrow> CoworkerStorage" where
  "setProp obj k v =
     (if k = ''__proto__'' then obj\<lparr>proto := Some v\<rparr>
      else obj\<lparr>props := AList.update k v (props obj)\<rparr>)"

text \<open>Truthiness, as tested by \<open>if (coworkers[name])\<close> and \<open>if (!coworker)\<close>.\<close>

fun truthy :: "jsval \<Rightarrow> bool" where
  "truthy Undefined = False"
| "truthy (Obj c) = True"
| "truthy (Str s) = (s \<noteq> [])"
| "truthy Builtin = True"

text \<open>
  Field reads \<open>coworker.sessionId\<close> and \<open>coworker.agentType\<close> on a truthy value: a
  record has the field, anything else yields \<open>undefined\<close> (\<open>None\<close>).
\<close>

fun get_sessionId :: "jsval \<Rightarrow> string option" where
  "get_sessionId (Obj c) = Some (sessionId c)"
| "get_sessionId v = None"

fun get_agentType :: "jsval \<Rightarrow> string option" where
  "get_agentType (Obj c) = Some (agentType c)"
| "get_agentType v = None"

text \<open>Interpolation \<open>${x}\<close> in a template literal.\<close>

fun interpolate :: "string option \<Rightarrow> string" where
  "interpolate (Some s) = s"
| "interpolate None = ''undefined''"

text \<open>\<open>x || null\<close> and \<open>x || undefined\<close> on an optional string: the empty string is falsy.\<close>

fun or_absent :: "string option \<Rightarrow> string option" where
  "or_absent (Some s) = (if s = [] then None else Some s)"
| "or_absent None = None"

section \<open>Storage: the structured-file variant (src/index.ts)\<close>

text \<open>
  The backing file is absent, or cannot be read as a JSON object (\<open>readFileSync\<close>,
  \<open>JSON.parse\<close> or \<open>Object.entries\<close> throws), or holds a JSON object whose entries are
  coworker records (the cast \<open>as CoworkerStorage\<close>), in the order of \<open>Object.entries\<close>. A
  JSON document may hold any keys, also \<open>__proto__\<close> and keys with upper-case letters.

  Taken as given: \<open>getStorageFile\<close> yields the path (\<open>client.path.get\<close> resolves),
  \<open>writeFileSync\<close> succeeds, \<open>JSON.parse\<close> returns what \<open>JSON.stringify\<close> was given, and
  properties are enumerated in insertion order (JavaScript moves names that are array
  indices, such as \<open>7\<close>, to the front; the order of such names is outside the model,
  their content is not).
\<close>

datatype file_state = NoFile | Unreadable | Document "(string \<times> Coworker) list"

definition normalize_entries :: "(string \<times> Coworker) list \<Rightarrow> CoworkerStorage" where
  "normalize_entries data =
     fold (\<lambda>(name, coworker) normalized. setProp normalized (toLowerCase name) coworker)
       data emptyObject"

fun loadCoworkers_file :: "file_state \<Rightarrow> CoworkerStorage" where
  "loadCoworkers_file NoFile = emptyObject"
| "loadCoworkers_file Unreadable = emptyObject"
| "loadCoworkers_file (Document data) = normalize_entries data"

text \<open>\<open>writeFileSync (JSON.stringify coworkers)\<close>: the own properties replace the file.\<close>

definition saveCoworkers_file :: "CoworkerStorage \<Rightarrow> file_state" where
  "saveCoworkers_file coworkers = Document (props coworkers)"

section \<open>Storage: the embedded-table variant (second listing of src/README.md)\<close>

record row =
  row_name :: string
  session_id :: string
  agent_type :: string
  created_at :: string
  parent_id :: "string option"

text \<open>
  The database file is absent (\<open>new Database\<close> creates it and \<open>CREATE TABLE IF NOT EXISTS\<close>
  gives it an empty table), or is not a readable database (opening or the first
  statement throws, and nothing catches it), or holds the table's rows in rowid order.
\<close>

datatype db_state = NoDb | BadDb | Table "row list"

datatype error = DbError

fun getDb :: "db_state \<Rightarrow> error + row list" where
  "getDb NoDb = Inr []"
| "getDb BadDb = Inl DbError"
| "getDb (Table rows) = Inr rows"

definition coworker_of_row :: "row \<Rightarrow> Coworker" where
  "coworker_of_row r =
     \<lparr>sessionId = session_id r, agentType = agent_type r, createdAt = created_at r,
      parentId = or_absent (parent_id r)\<rparr>"

definition normalize_rows :: "row list \<Rightarrow> CoworkerStorage" where
  "normalize_rows rows =
     fold (\<lambda>r normalized. setProp normalized (toLowerCase (row_name r)) (coworker_of_row r))
       rows emptyObject"

definition loadCoworkers_db :: "db_state \<Rightarrow> error + (CoworkerStorage \<times> db_state)" where
  "loadCoworkers_db d =
     (case getDb d of
        Inl e \<Rightarrow> Inl e
      | Inr rows \<Rightarrow> Inr (normalize_rows rows, Table rows))"

text \<open>
  \<open>INSERT OR REPLACE\<close> on the primary key \<open>name\<close>: a row of that name is deleted and
  the new row gets a fresh rowid, after all others.
\<close>

definition insert_or_replace :: "row \<Rightarrow> row list \<Rightarrow> row list" where
  "insert_or_replace r rows = filter (\<lambda>x. row_name x \<noteq> row_name r) rows @ [r]"

definition row_of_entry :: "string \<times> Coworker \<Rightarrow> row" where
  "row_of_entry e =
     \<lparr>row_name = toLowerCase (fst e), session_id = sessionId (snd e),
      agent_type = agentType (snd e), created_at = createdAt (snd e),
      parent_id = or_absent (parentId (snd e))\<rparr>"

definition saveCoworkers_db :: "CoworkerStorage \<Rightarrow> db_state \<Rightarrow> error + db_state" where
  "saveCoworkers_db coworkers d =
     (case getDb d of
        Inl e \<Rightarrow> Inl e
      | Inr rows \<Rightarrow>
          Inr (Table (fold (\<lambda>e rs. insert_or_replace (row_of_entry e) rs) (props coworkers) rows)))"

text \<open>\<open>DELETE FROM coworkers WHERE name = ?\<close>.\<close>

definition delete_row :: "string \<Rightarrow> row list \<Rightarrow> row list" where
  "delete_row name rows = filter (\<lambda>x. row_name x \<noteq> name) rows"

section \<open>The host, the session service and the in-memory state\<close>

text \<open>
  The calls made on the external session service, in order: \<open>client.session.create\<close>
  with the body's \<open>parentID\<close> (when the body has one) and \<open>title\<close>, and
  \<open>client.session.prompt\<close> with the path's \<open>id\<close>, the text of its single part and the
  body's \<open>agent\<close> (when the body has one). Both are taken to resolve; what the service
  answers to \<open>create\<close> is the argument \<open>result_id\<close> of the tool (\<open>result.data?.id\<close>).
\<close>

datatype call =
    SessionCreate "string option" string
  | SessionPrompt "string option" string "string option"

text \<open>
  The state a tool runs in: the backing resource, the two module-level maps
  \<open>activeSessions\<close> and \<open>sessionParents\<close>, and the log of service calls.
\<close>

record 'store world =
  store :: 'store
  activeSessions :: "string \<rightharpoonup> string"
  sessionParents :: "string \<rightharpoonup> string"
  calls :: "call list"

text \<open>\<open>x ?? d\<close>.\<close>

fun nullish :: "string option \<Rightarrow> string \<Rightarrow> string" where
  "nullish (Some s) d = s"
| "nullish None d = d"

text \<open>\<open>Array.prototype.join\<close>.\<close>

fun join :: "string \<Rightarrow> string list \<Rightarrow> string" where
  "join sep [] = []"
| "join sep [x] = x"
| "join sep (x # y # ys) = x @ sep @ join sep (y # ys)"

text \<open>\<open>Map.prototype.delete\<close> with a key that may be \<open>undefined\<close> (never a key of the map).\<close>

fun map_delete :: "string option \<Rightarrow> (string \<rightharpoonup> string) \<Rightarrow> (string \<rightharpoonup> string)" where
  "map_delete (Some k) m = m(k := None)"
| "map_delete None m = m"

text \<open>The arrow U+2192 in UTF-8, the line feed, the double and the single quote.\<close>

definition arrow :: string where
  "arrow = [CHR 0xE2, CHR 0x86, CHR 0x92]"

definition newline :: string where
  "newline = [CHR 0x0A]"

definition dq :: string where
  "dq = [CHR 0x22]"

definition sq :: string where
  "sq = [CHR 0x27]"

text \<open>The callback of \<open>entries.map\<close> in \<open>list_coworkers\<close>, the same in both variants.\<close>

definition list_line :: "(string \<rightharpoonup> string) \<Rightarrow> string \<times> Coworker \<Rightarrow> string" where
  "list_line active e =
     (let status = (if active (sessionId (snd e)) \<noteq> None then ''active'' else ''idle'') in
      fst e @ '' ('' @ agentType (snd e) @ '') '' @ arrow @ '' '' @ sessionId (snd e)
        @ '' ['' @ status @ '']'')"

definition list_text :: "(string \<rightharpoonup> string) \<Rightarrow> CoworkerStorage \<Rightarrow> string" where
  "list_text active coworkers =
     (let entries = props coworkers in
      if length entries = 0 then ''No coworkers found''
      else join newline (map (list_line active) entries))"

definition not_found_text :: "string \<Rightarrow> string" where
  "not_found_text name =
     ''Error: Coworker '' @ dq @ name @ dq
       @ '' not found. Use list_coworkers to see available coworkers.''"

definition already_exists_text :: "string \<Rightarrow> jsval \<Rightarrow> string" where
  "already_exists_text name existing =
     ''Error: Coworker '' @ dq @ name @ dq @ '' already exists with session ''
       @ interpolate (get_sessionId existing)"

definition created_text :: "string \<Rightarrow> string \<Rightarrow> string \<Rightarrow> string" where
  "created_text name agent new_id =
     ''Created coworker '' @ dq @ name @ dq @ '' ('' @ agent @ '') with session '' @ new_id"

definition queued_text :: "string \<Rightarrow> jsval \<Rightarrow> string" where
  "queued_text name coworker =
     ''Queued message to '' @ dq @ name @ dq @ '' ('' @ interpolate (get_agentType coworker) @ '')''"

definition title_text :: "string \<Rightarrow> string \<Rightarrow> string" where
  "title_text args_name agent = args_name @ '' ('' @ agent @ '')''"

section \<open>The tools of the structured-file variant (src/index.ts)\<close>

definition createCoworker_file ::
  "string \<Rightarrow> string option \<Rightarrow> string \<Rightarrow> string \<Rightarrow> string option \<Rightarrow> string
     \<Rightarrow> file_state world \<Rightarrow> string \<times> file_state world" where
  "createCoworker_file args_name args_agent_type args_prompt toolCtx_sessionID result_id now w =
     (let coworkers = loadCoworkers_file (store w);
          name = toLowerCase args_name
      in
        if truthy (getProp coworkers name) then
          (already_exists_text name (getProp coworkers name), w)
        else
          let w1 = w\<lparr>calls := calls w @
                 [SessionCreate (Some toolCtx_sessionID)
                    (title_text args_name (nullish args_agent_type ''code''))]\<rparr>
          in
            (case or_absent result_id of
               None \<Rightarrow> (''Error: Failed to create session'', w1)
             | Some new_id \<Rightarrow>
                 let w2 = w1\<lparr>calls := calls w1 @
                        [SessionPrompt (Some new_id) args_prompt
                           (Some (nullish args_agent_type ''code''))]\<rparr>;
                     coworkers' = setProp coworkers name
                        \<lparr>sessionId = new_id, agentType = nullish args_agent_type ''code'',
                         createdAt = now, parentId = Some toolCtx_sessionID\<rparr>;
                     w3 = w2\<lparr>store := saveCoworkers_file coworkers'\<rparr>;
                     w4 = w3\<lparr>activeSessions := (activeSessions w3)(new_id \<mapsto> name),
                            sessionParents := (sessionParents w3)(new_id \<mapsto> toolCtx_sessionID)\<rparr>
                 in (created_text name (nullish args_agent_type ''code'') new_id, w4)))"

definition listCoworkers_file :: "file_state world \<Rightarrow> string \<times> file_state world" where
  "listCoworkers_file w = (list_text (activeSessions w) (loadCoworkers_file (store w)), w)"

definition tellCoworker_file ::
  "string \<Rightarrow> string \<Rightarrow> file_state world \<Rightarrow> string \<times> file_state world" where
  "tellCoworker_file args_name args_message w =
     (let coworkers = loadCoworkers_file (store w);
          name = toLowerCase args_name;
          coworker = getProp coworkers name
      in
        if \<not> truthy coworker then (not_found_text name, w)
        else
          (queued_text name coworker,
           w\<lparr>calls := calls w @ [SessionPrompt (get_sessionId coworker) args_message None]\<rparr>))"

section \<open>The tools of the embedded-table variant (second listing of src/README.md)\<close>

text \<open>
  A tool of this variant returns its text, or throws what \<open>getDb\<close> throws; the state
  reached is returned in both cases.
\<close>

definition createCoworker_db ::
  "string \<Rightarrow> string option \<Rightarrow> string \<Rightarrow> string \<Rightarrow> string option \<Rightarrow> string
     \<Rightarrow> db_state world \<Rightarrow> (error + string) \<times> db_state world" where
  "createCoworker_db args_name args_agent_type args_prompt toolCtx_sessionID result_id now w =
     (case loadCoworkers_db (store w) of
        Inl e \<Rightarrow> (Inl e, w)
      | Inr (coworkers, d) \<Rightarrow>
          let w0 = w\<lparr>store := d\<rparr>;
              name = toLowerCase args_name
          in
            if truthy (getProp coworkers name) then
              (Inr (already_exists_text name (getProp coworkers name)), w0)
            else
              let w1 = w0\<lparr>calls := calls w0 @
                     [SessionCreate None
                        (title_text args_name (nullish args_agent_type ''general''))]\<rparr>
              in
                (case or_absent result_id of
                   None \<Rightarrow> (Inr ''Error: Failed to create session'', w1)
                 | Some new_id \<Rightarrow>
                     let modifiedPrompt =
                           ''IMPORTANT: your name is '' @ sq @ args_name @ sq @ ''. '' @ args_prompt;
                         w2 = w1\<lparr>calls := calls w1 @
                            [SessionPrompt (Some new_id) modifiedPrompt
                               (Some (nullish args_agent_type ''general''))]\<rparr>;
                         coworkers' = setProp coworkers name
                            \<lparr>sessionId = new_id, agentType = nullish args_agent_type ''general'',
                             createdAt = now, parentId = Some toolCtx_sessionID\<rparr>
                     in
                       (case saveCoworkers_db coworkers' (store w2) of
                          Inl e \<Rightarrow> (Inl e, w2)
                        | Inr d' \<Rightarrow>
                            (Inr (created_text name (nullish args_agent_type ''general'') new_id),
                             w2\<lparr>store := d',
                                activeSessions := (activeSessions w2)(new_id \<mapsto> name),
                                sessionParents :=
                                  (sessionParents w2)(new_id \<mapsto> toolCtx_sessionID)\<rparr>))))"

definition listCoworkers_db :: "db_state world \<Rightarrow> (error + string) \<times> db_state world" where
  "listCoworkers_db w =
     (case loadCoworkers_db (store w) of
        Inl e \<Rightarrow> (Inl e, w)
      | Inr (coworkers, d) \<Rightarrow> (Inr (list_text (activeSessions w) coworkers), w\<lparr>store := d\<rparr>))"

definition tellCoworker_db ::
  "string \<Rightarrow> string \<Rightarrow> db_state world \<Rightarrow> (error + string) \<times> db_state world" where
  "tellCoworker_db args_name args_message w =
     (case loadCoworkers_db (store w) of
        Inl e \<Rightarrow> (Inl e, w)
      | Inr (coworkers, d) \<Rightarrow>
          let w0 = w\<lparr>store := d\<rparr>;
              name = toLowerCase args_name;
              coworker = getProp coworkers name
          in
            if \<not> truthy coworker then (Inr (not_found_text name), w0)
            else
              (Inr (queued_text name coworker),
               w0\<lparr>calls := calls w0 @
                  [SessionPrompt (get_sessionId coworker) args_message None]\<rparr>))"

definition removed_text :: "string \<Rightarrow> jsval \<Rightarrow> string" where
  "removed_text name coworker =
     ''Removed coworker '' @ dq @ name @ dq @ '' ('' @ interpolate (get_agentType coworker) @ '')''"

definition removeCoworker_db ::
  "string \<Rightarrow> db_state world \<Rightarrow> (error + string) \<times> db_state world" where
  "removeCoworker_db args_name w =
     (case loadCoworkers_db (store w) of
        Inl e \<Rightarrow> (Inl e, w)
      | Inr (coworkers, d) \<Rightarrow>
          let w0 = w\<lparr>store := d\<rparr>;
              name = toLowerCase args_name;
              coworker = getProp coworkers name
          in
            if \<not> truthy coworker then (Inr (not_found_text name), w0)
            else
              (case getDb (store w0) of
                 Inl e \<Rightarrow> (Inl e, w0)
               | Inr rows \<Rightarrow>
                   (Inr (removed_text name coworker),
                    w0\<lparr>store := Table (delete_row name rows),
                       activeSessions := map_delete (get_sessionId coworker) (activeSessions w0),
                       sessionParents := map_delete (get_sessionId coworker) (sessionParents w0)\<rparr>)))"

section \<open>Auxiliary notions for the statements\<close>

text \<open>
  The keys of a mapping are normalized when they are pairwise distinct, each is its own
  lower-case form, and none is \<open>__proto__\<close> (which is never an own property of an object
  built by assignment).
\<close>

definition normalized_keys :: "(string \<times> Coworker) list \<Rightarrow> bool" where
  "normalized_keys ps =
     (distinct (map fst ps) \<and>
      list_all (\<lambda>e. toLowerCase (fst e) = fst e \<and> fst e \<noteq> ''__proto__'') ps)"

definition lower_key :: "string \<times> Coworker \<Rightarrow> string \<times> Coworker" where
  "lower_key e = (toLowerCase (fst e), snd e)"

definition entry_of_row :: "row \<Rightarrow> string \<times> Coworker" where
  "entry_of_row r = (row_name r, coworker_of_row r)"

text \<open>What a record becomes when it is written to a row and read back.\<close>

definition through_row :: "Coworker \<Rightarrow> Coworker" where
  "through_row c = c\<lparr>parentId := or_absent (parentId c)\<rparr>"

abbreviation (input) step_entry :: "string \<times> Coworker \<Rightarrow> CoworkerStorage \<Rightarrow> CoworkerStorage" where
  "step_entry \<equiv> (\<lambda>(name, coworker) normalized. setProp normalized (toLowerCase name) coworker)"

text \<open>The state of a fresh process: both maps empty, nothing called yet.\<close>

definition fresh_world :: "'store \<Rightarrow> 'store world" where
  "fresh_world s = \<lparr>store = s, activeSessions = Map.empty, sessionParents = Map.empty, calls = []\<rparr>"

section \<open>Sequences of tool calls\<close>

text \<open>The tools each variant registers, with the arguments and the service's answer.\<close>

datatype file_tool =
    FCreate string "string option" string string "string option" string
  | FList
  | FTell string string

datatype db_tool =
    DCreate string "string option" string string "string option" string
  | DList
  | DTell string string
  | DRemove string

fun step_file :: "file_tool \<Rightarrow> file_state world \<Rightarrow> file_state world" where
  "step_file (FCreate n a p s r t) w = snd (createCoworker_file n a p s r t w)"
| "step_file FList w = snd (listCoworkers_file w)"
| "step_file (FTell n m) w = snd (tellCoworker_file n m w)"

fun step_db :: "db_tool \<Rightarrow> db_state world \<Rightarrow> db_state world" where
  "step_db (DCreate n a p s r t) w = snd (createCoworker_db n a p s r t w)"
| "step_db DList w = snd (listCoworkers_db w)"
| "step_db (DTell n m) w = snd (tellCoworker_db n m w)"
| "step_db (DRemove n) w = snd (removeCoworker_db n w)"

text \<open>The two in-memory maps have the same key set.\<close>

definition same_keys :: "'s world \<Rightarrow> bool" where
  "same_keys w = (dom (activeSessions w) = dom (sessionParents w))"


text \<open>Sample data for the examples.\<close>

definition bob_record :: Coworker where
  "bob_record = \<lparr>sessionId = ''s1'', agentType = ''code'', createdAt = ''t1'', parentId = Some ''c1''\<rparr>"

definition bob_row :: "string \<Rightarrow> row" where
  "bob_row name = \<lparr>row_name = name, session_id = ''s1'', agent_type = ''code'', created_at = ''t1'',
     parent_id = Some ''c1''\<rparr>"

definition alice_record :: Coworker where
  "alice_record = \<lparr>sessionId = ''s0'', agentType = ''researcher'', createdAt = ''t0'', parentId = None\<rparr>"

definition alice_row :: row where
  "alice_row = \<lparr>row_name = ''alice'', session_id = ''s0'', agent_type = ''researcher'',
     created_at = ''t0'', parent_id = None\<rparr>"

text \<open>Saving a mapping to the table and loading the table again.\<close>

definition save_then_load_db :: "CoworkerStorage \<Rightarrow> db_state \<Rightarrow> error + CoworkerStorage" where
  "save_then_load_db coworkers d =
     (case saveCoworkers_db coworkers d of
        Inl e \<Rightarrow> Inl e
      | Inr d' \<Rightarrow> (case loadCoworkers_db d' of Inl e \<Rightarrow> Inl e | Inr (obj, d'') \<Rightarrow> Inr obj))"

section \<open>Comparing the two variants\<close>




section \<open>The normalizer\<close>

lemma toLowerCase_char_idem: "toLowerCase_char (toLowerCase_char c) = toLowerCase_char c"
  by (auto simp: toLowerCase_char_def Let_def)

lemma toLowerCase_idem: "toLowerCase (toLowerCase s) = toLowerCase s"
  by (simp add: toLowerCase_def toLowerCase_char_idem)




section \<open>Loading and saving\<close>

lemma props_setProp:
  "props (setProp obj k v) = (if k = ''__proto__'' then props obj else AList.update k v (props obj))"
  by (simp add: setProp_def)

lemma update_fresh: "k \<notin> fst ` set al \<Longrightarrow> AList.update k v al = al @ [(k, v)]"
  by (induction al) auto

lemma normalized_keys_update:
  "normalized_keys ps \<Longrightarrow> toLowerCase k = k \<Longrightarrow> k \<noteq> ''__proto__''
     \<Longrightarrow> normalized_keys (AList.update k v ps)"
proof -
  assume nk: "normalized_keys ps" and lk: "toLowerCase k = k" "k \<noteq> ''__proto__''"
  have "set (AList.update k v ps) \<subseteq> insert (k, v) (set ps)"
    by (induction ps) auto
  then have "\<forall>e\<in>set (AList.update k v ps). toLowerCase (fst e) = fst e \<and> fst e \<noteq> ''__proto__''"
    using nk lk by (auto simp: normalized_keys_def list_all_iff)
  then show ?thesis
    using nk by (simp add: normalized_keys_def list_all_iff distinct_update)
qed

lemma normalized_keys_setProp:
  "normalized_keys (props obj) \<Longrightarrow> toLowerCase k = k
     \<Longrightarrow> normalized_keys (props (setProp obj k v))"
  by (simp add: props_setProp normalized_keys_update)

lemma normalized_keys_fold:
  "normalized_keys (props obj) \<Longrightarrow> normalized_keys (props (fold step_entry es obj))"
  by (induction es arbitrary: obj)
     (auto simp: normalized_keys_setProp toLowerCase_idem split: prod.splits)

lemma normalized_keys_normalize_entries: "normalized_keys (props (normalize_entries es))"
  unfolding normalize_entries_def
  by (rule normalized_keys_fold) (simp add: normalized_keys_def emptyObject_def)

lemma normalize_rows_entries: "normalize_rows rows = normalize_entries (map entry_of_row rows)"
  by (simp add: normalize_rows_def normalize_entries_def fold_map comp_def entry_of_row_def)

lemma map_of_fold:
  "k \<noteq> ''__proto__'' \<Longrightarrow>
   map_of (props (fold step_entry es obj)) k =
     (case map_of (rev (map lower_key es)) k of Some v \<Rightarrow> Some v | None \<Rightarrow> map_of (props obj) k)"
proof (induction es arbitrary: obj)
  case Nil
  then show ?case by simp
next
  case (Cons e es)
  then show ?case
    by (cases e) (auto simp: props_setProp lower_key_def update_conv' map_add_def
          split: option.splits)
qed

lemma map_of_normalize_entries:
  "k \<noteq> ''__proto__'' \<Longrightarrow>
   map_of (props (normalize_entries es)) k = map_of (rev (map lower_key es)) k"
  by (simp add: normalize_entries_def map_of_fold emptyObject_def split: option.splits)

lemma props_fold_fresh:
  "normalized_keys (props obj @ ps) \<Longrightarrow> props (fold step_entry ps obj) = props obj @ ps"
proof (induction ps arbitrary: obj)
  case Nil
  then show ?case by simp
next
  case (Cons e ps)
  obtain k v where e: "e = (k, v)" by (cases e)
  from Cons.prems have lk: "toLowerCase k = k" "k \<noteq> ''__proto__''" "k \<notin> fst ` set (props obj)"
    by (auto simp: normalized_keys_def e)
  then have p: "props (setProp obj k v) = props obj @ [(k, v)]"
    by (simp add: props_setProp update_fresh)
  from Cons.prems have "normalized_keys (props (setProp obj k v) @ ps)"
    by (simp add: p e)
  from Cons.IH[OF this] show ?case
    by (simp add: e lk p)
qed

lemma props_normalize_entries_id:
  "normalized_keys ps \<Longrightarrow> props (normalize_entries ps) = ps"
  unfolding normalize_entries_def
  using props_fold_fresh[of emptyObject ps] by (simp add: emptyObject_def)

lemma or_absent_idem: "or_absent (or_absent p) = or_absent p"
  by (cases p) auto

lemma or_absent_id: "p \<noteq> Some [] \<Longrightarrow> or_absent p = p"
  by (cases p) auto

lemma map_of_rev_distinct: "distinct (map fst xs) \<Longrightarrow> map_of (rev xs) = map_of xs"
proof (induction xs)
  case Nil
  then show ?case by simp
next
  case (Cons x xs)
  then have ih: "map_of (rev xs) = map_of xs" and fresh: "map_of xs (fst x) = None"
    by (simp_all add: map_of_eq_None_iff)
  show ?case
    using fresh by (cases x) (auto simp: ih map_add_def fun_eq_iff split: option.splits)
qed

lemma row_name_row_of_entry: "row_name (row_of_entry e) = toLowerCase (fst e)"
  by (simp add: row_of_entry_def)

lemma fold_insert_or_replace:
  "normalized_keys ps \<Longrightarrow>
   fold (\<lambda>e rs. insert_or_replace (row_of_entry e) rs) ps rows =
     filter (\<lambda>x. row_name x \<notin> fst ` set ps) rows @ map row_of_entry ps"
proof (induction ps arbitrary: rows)
  case Nil
  then show ?case by simp
next
  case (Cons e ps)
  from Cons.prems have nk: "normalized_keys ps" and lk: "toLowerCase (fst e) = fst e"
    and fresh: "fst e \<notin> fst ` set ps"
    by (auto simp: normalized_keys_def)
  have "fold (\<lambda>e rs. insert_or_replace (row_of_entry e) rs) (e # ps) rows =
        fold (\<lambda>e rs. insert_or_replace (row_of_entry e) rs) ps (insert_or_replace (row_of_entry e) rows)"
    by simp
  also have "\<dots> = filter (\<lambda>x. row_name x \<notin> fst ` set ps) (insert_or_replace (row_of_entry e) rows)
                  @ map row_of_entry ps"
    by (rule Cons.IH[OF nk])
  also have "filter (\<lambda>x. row_name x \<notin> fst ` set ps) (insert_or_replace (row_of_entry e) rows) =
             filter (\<lambda>x. row_name x \<notin> fst ` set (e # ps)) rows @ [row_of_entry e]"
    using fresh lk by (auto simp: insert_or_replace_def row_name_row_of_entry intro: filter_cong)
  finally show ?case by simp
qed

lemma entry_of_row_of_entry:
  "lower_key (entry_of_row (row_of_entry e)) = (toLowerCase (fst e), through_row (snd e))"
  by (simp add: lower_key_def entry_of_row_def row_of_entry_def coworker_of_row_def
        through_row_def or_absent_idem toLowerCase_idem)

lemma map_of_rev_filter_irrelevant:
  "(\<And>r. r \<in> set rows \<Longrightarrow> \<not> P r \<Longrightarrow> fst (g r) \<noteq> k) \<Longrightarrow>
   map_of (rev (map g (filter P rows))) k = map_of (rev (map g rows)) k"
  by (induction rows) (auto simp: map_add_def split: option.splits)

lemma map_of_saved_rows:
  assumes nk: "normalized_keys ps"
  shows "map_of (props (normalize_rows
            (filter (\<lambda>x. row_name x \<notin> fst ` set ps) rows @ map row_of_entry ps))) =
         map_of (props (normalize_rows rows)) ++ (map_option through_row \<circ> map_of ps)"
proof
  fix k
  let ?A = "filter (\<lambda>x. row_name x \<notin> fst ` set ps) rows"
  let ?g = "\<lambda>r. lower_key (entry_of_row r)"
  let ?L = "map_of (props (normalize_rows (?A @ map row_of_entry ps))) k"
  let ?R = "(map_of (props (normalize_rows rows)) ++ (map_option through_row \<circ> map_of ps)) k"
  have keys: "\<And>e. e \<in> set ps \<Longrightarrow> toLowerCase (fst e) = fst e"
    using nk by (auto simp: normalized_keys_def list_all_iff)
  have B: "map ?g (map row_of_entry ps) = map (\<lambda>(k, v). (k, through_row v)) ps"
    using keys by (auto simp: entry_of_row_of_entry)
  have dB: "distinct (map fst (map (\<lambda>(k, v). (k, through_row v)) ps))"
    using nk by (simp add: normalized_keys_def comp_def case_prod_beta)
  have mB: "map_of (rev (map ?g (map row_of_entry ps))) = map_option through_row \<circ> map_of ps"
    unfolding B using map_of_rev_distinct[OF dB] by (simp add: map_of_map)
  show "?L = ?R"
  proof (cases "k = ''__proto__''")
    case True
    have "normalized_keys (props (normalize_rows (?A @ map row_of_entry ps)))"
         "normalized_keys (props (normalize_rows rows))"
      by (simp_all add: normalize_rows_entries normalized_keys_normalize_entries)
    then have "?L = None" "map_of (props (normalize_rows rows)) k = None"
      using True by (auto simp: normalized_keys_def list_all_iff map_of_eq_None_iff)
    moreover have "map_of ps k = None"
      using nk True by (auto simp: normalized_keys_def list_all_iff map_of_eq_None_iff)
    ultimately show ?thesis by (simp add: map_add_def)
  next
    case False
    have L: "?L = (case (map_option through_row \<circ> map_of ps) k of Some v \<Rightarrow> Some v
                   | None \<Rightarrow> map_of (rev (map ?g ?A)) k)"
      using mB by (simp add: normalize_rows_entries map_of_normalize_entries[OF False]
            map_add_def comp_def split: option.splits)
    have R: "map_of (props (normalize_rows rows)) k = map_of (rev (map ?g rows)) k"
      by (simp add: normalize_rows_entries map_of_normalize_entries[OF False] comp_def)
    show ?thesis
    proof (cases "map_of ps k")
      case None
      then have "k \<notin> fst ` set ps" by (simp add: map_of_eq_None_iff)
      then have "\<And>r. r \<in> set rows \<Longrightarrow> \<not> row_name r \<notin> fst ` set ps \<Longrightarrow> fst (?g r) \<noteq> k"
        using keys by (force simp: lower_key_def entry_of_row_def)
      then have "map_of (rev (map ?g ?A)) k = map_of (rev (map ?g rows)) k"
        by (rule map_of_rev_filter_irrelevant)
      then show ?thesis using None L R by (simp add: map_add_def)
    next
      case (Some v)
      then show ?thesis using L by (simp add: map_add_def)
    qed
  qed
qed

section \<open>Creating a name twice\<close>

lemma truthy_getProp_proto: "truthy (getProp obj ''__proto__'')"
  by (simp add: getProp_def split: option.splits)

lemma getProp_own: "map_of (props obj) k = Some c \<Longrightarrow> getProp obj k = Obj c"
  by (simp add: getProp_def)

lemma not_truthy_getProp:
  "\<not> truthy (getProp obj k) \<Longrightarrow> k \<noteq> ''__proto__'' \<and> map_of (props obj) k = None"
  using truthy_getProp_proto[of obj] by (cases "map_of (props obj) k") (auto simp: getProp_own)


lemma loadCoworkers_db_cases:
  "loadCoworkers_db d = Inr (obj, d') \<Longrightarrow> \<exists>rows. getDb d = Inr rows \<and> obj = normalize_rows rows \<and> d' = Table rows"
  by (auto simp: loadCoworkers_db_def split: sum.splits)

lemma normalized_keys_loadCoworkers_db:
  "loadCoworkers_db d = Inr (obj, d') \<Longrightarrow> normalized_keys (props obj)"
  by (auto dest!: loadCoworkers_db_cases simp: normalize_rows_entries normalized_keys_normalize_entries)



lemma getDb_Table: "getDb d = Inr rows \<Longrightarrow> getDb (Table rows) = Inr rows"
  by simp

lemma reload_db_after_set:
  assumes load: "loadCoworkers_db d = Inr (obj, d')"
    and free: "\<not> truthy (getProp obj (toLowerCase n))"
  shows "\<exists>rows'. saveCoworkers_db (setProp obj (toLowerCase n) c) d' = Inr (Table rows') \<and>
           loadCoworkers_db (Table rows') = Inr (normalize_rows rows', Table rows') \<and>
           getProp (normalize_rows rows') (toLowerCase n) = Obj (through_row c)"
proof -
  let ?k = "toLowerCase n"
  from loadCoworkers_db_cases[OF load] obtain rows where
    rows: "getDb d = Inr rows" "obj = normalize_rows rows" "d' = Table rows" by blast
  from not_truthy_getProp[OF free] have k: "?k \<noteq> ''__proto__''" by simp
  let ?ps = "props (setProp obj ?k c)"
  have nk: "normalized_keys ?ps"
    by (rule normalized_keys_setProp)
       (simp_all add: normalized_keys_loadCoworkers_db[OF load] toLowerCase_idem)
  let ?rows' = "filter (\<lambda>x. row_name x \<notin> fst ` set ?ps) rows @ map row_of_entry ?ps"
  have sv: "saveCoworkers_db (setProp obj ?k c) d' = Inr (Table ?rows')"
    using rows(1,3) by (simp add: saveCoworkers_db_def fold_insert_or_replace[OF nk])
  have ld: "loadCoworkers_db (Table ?rows') = Inr (normalize_rows ?rows', Table ?rows')"
    by (simp add: loadCoworkers_db_def)
  have "map_of ?ps ?k = Some c"
    using k by (simp add: props_setProp update_conv')
  then have "map_of (props (normalize_rows ?rows')) ?k = Some (through_row c)"
    by (simp add: map_of_saved_rows[OF nk] map_add_def)
  then have "getProp (normalize_rows ?rows') ?k = Obj (through_row c)"
    by (rule getProp_own)
  with sv ld show ?thesis by blast
qed


section \<open>The in-memory maps\<close>

lemma dom_map_delete: "dom (map_delete k m) = dom m - (case k of Some x \<Rightarrow> {x} | None \<Rightarrow> {})"
  by (cases k) auto

lemma same_keys_step_file: "same_keys w \<Longrightarrow> same_keys (step_file c w)"
  by (cases c)
     (auto simp: same_keys_def createCoworker_file_def listCoworkers_file_def tellCoworker_file_def
        Let_def split: option.splits)

lemma same_keys_create_db: "same_keys w \<Longrightarrow> same_keys (snd (createCoworker_db n a p s r t w))"
  unfolding same_keys_def createCoworker_db_def Let_def
  by (simp split: sum.splits prod.splits option.splits)

lemma same_keys_remove_db: "same_keys w \<Longrightarrow> same_keys (snd (removeCoworker_db n w))"
  unfolding same_keys_def removeCoworker_db_def Let_def
  by (simp add: dom_map_delete split: sum.splits prod.splits)

lemma same_keys_step_db: "same_keys w \<Longrightarrow> same_keys (step_db c w)"
proof (cases c)
  case (DCreate n a p s r t)
  assume "same_keys w"
  then show ?thesis unfolding DCreate step_db.simps by (rule same_keys_create_db)
next
  case DList
  assume "same_keys w"
  then show ?thesis
    by (simp add: DList same_keys_def listCoworkers_db_def split: sum.splits prod.splits)
next
  case (DTell n m)
  assume "same_keys w"
  then show ?thesis
    by (simp add: DTell same_keys_def tellCoworker_db_def Let_def split: sum.splits prod.splits)
next
  case (DRemove n)
  assume "same_keys w"
  then show ?thesis unfolding DRemove step_db.simps by (rule same_keys_remove_db)
qed

lemma same_keys_fold_file: "same_keys w \<Longrightarrow> same_keys (fold step_file cs w)"
  by (induction cs arbitrary: w) (simp_all add: same_keys_step_file)

lemma same_keys_fold_db: "same_keys w \<Longrightarrow> same_keys (fold step_db cs w)"
  by (induction cs arbitrary: w) (simp_all add: same_keys_step_db)


section \<open>Sample runs\<close>

lemma lower_Bob: "toLowerCase ''Bob'' = ''bob''"
  by code_simp

lemma lower_BOB: "toLowerCase ''BOB'' = ''bob''"
  by code_simp

lemma getProp_empty_bob:
  "getProp emptyObject ''bob'' = Undefined"
  "getProp \<lparr>props = [], proto = None\<rparr> ''bob'' = Undefined"
  by (simp_all add: getProp_def emptyObject_def object_prototype_names_def)

lemma row_name_bob_row: "row_name (bob_row name) = name"
  by (simp add: bob_row_def)

lemma create_bob_file:
  "createCoworker_file ''Bob'' (Some ''code'') ''hello'' ''c1'' (Some ''s1'') ''t1'' (fresh_world NoFile) =
     (created_text ''bob'' ''code'' ''s1'',
      \<lparr>store = Document [(''bob'', bob_record)], activeSessions = [''s1'' \<mapsto> ''bob''],
       sessionParents = [''s1'' \<mapsto> ''c1''],
       calls = [SessionCreate (Some ''c1'') (title_text ''Bob'' ''code''),
                SessionPrompt (Some ''s1'') ''hello'' (Some ''code'')]\<rparr>)"
  by (simp add: createCoworker_file_def Let_def fresh_world_def lower_Bob getProp_empty_bob
        setProp_def emptyObject_def saveCoworkers_file_def bob_record_def)

lemma load_fresh_db: "loadCoworkers_db NoDb = Inr (emptyObject, Table [])"
  by (simp add: loadCoworkers_db_def normalize_rows_def)

lemma create_bob_db:
  "createCoworker_db ''Bob'' (Some ''code'') ''hello'' ''c1'' (Some ''s1'') ''t1'' (fresh_world NoDb) =
     (Inr (created_text ''bob'' ''code'' ''s1''),
      \<lparr>store = Table [bob_row ''bob''], activeSessions = [''s1'' \<mapsto> ''bob''],
       sessionParents = [''s1'' \<mapsto> ''c1''],
       calls = [SessionCreate None (title_text ''Bob'' ''code''),
                SessionPrompt (Some ''s1'') (''IMPORTANT: your name is '' @ sq @ ''Bob'' @ sq @ ''. hello'')
                  (Some ''code'')]\<rparr>)"
  by (simp add: createCoworker_db_def Let_def fresh_world_def load_fresh_db lower_Bob getProp_empty_bob
        setProp_def emptyObject_def saveCoworkers_db_def insert_or_replace_def row_of_entry_def
        bob_row_def toLowerCase_idem[of "''Bob''", unfolded lower_Bob])

lemma load_bob_db:
  "loadCoworkers_db (Table [bob_row ''bob'']) =
     Inr (\<lparr>props = [(''bob'', bob_record)], proto = None\<rparr>, Table [bob_row ''bob''])"
  by (simp add: loadCoworkers_db_def normalize_rows_def setProp_def emptyObject_def
        toLowerCase_idem[of "''Bob''", unfolded lower_Bob] bob_row_def bob_record_def coworker_of_row_def)

lemma remove_bob_db:
  "removeCoworker_db ''BOB''
     \<lparr>store = Table [bob_row ''bob''], activeSessions = [''s1'' \<mapsto> ''bob''],
      sessionParents = [''s1'' \<mapsto> ''c1''], calls = cs\<rparr> =
   (Inr (removed_text ''bob'' (Obj bob_record)),
    \<lparr>store = Table [], activeSessions = Map.empty, sessionParents = Map.empty, calls = cs\<rparr>)"
  by (simp add: removeCoworker_db_def Let_def load_bob_db lower_BOB getProp_def delete_row_def
        row_name_bob_row bob_record_def)



section \<open>Listing\<close>


section \<open>Saving and loading again\<close>

lemma through_row_id: "parentId c \<noteq> Some [] \<Longrightarrow> through_row c = c"
  by (simp add: through_row_def or_absent_id)

lemma map_option_through_row_id:
  "list_all (\<lambda>e. through_row (snd e) = snd e) ps \<Longrightarrow> map_option through_row \<circ> map_of ps = map_of ps"
  by (induction ps) (auto simp: fun_eq_iff)

lemma save_then_load_db_map:
  assumes nk: "normalized_keys (props coworkers)" and g: "getDb d = Inr rows"
  shows "\<exists>obj. save_then_load_db coworkers d = Inr obj \<and>
           map_of (props obj) =
             map_of (props (normalize_rows rows)) ++ (map_option through_row \<circ> map_of (props coworkers)) \<and>
           (rows = [] \<and> list_all (\<lambda>e. through_row (snd e) = snd e) (props coworkers)
              \<longrightarrow> props obj = props coworkers)"
proof -
  let ?ps = "props coworkers"
  let ?rows' = "filter (\<lambda>x. row_name x \<notin> fst ` set ?ps) rows @ map row_of_entry ?ps"
  have sv: "save_then_load_db coworkers d = Inr (normalize_rows ?rows')"
    by (simp add: save_then_load_db_def saveCoworkers_db_def g fold_insert_or_replace[OF nk]
          loadCoworkers_db_def)
  have m: "map_of (props (normalize_rows ?rows')) =
             map_of (props (normalize_rows rows)) ++ (map_option through_row \<circ> map_of ?ps)"
    by (rule map_of_saved_rows[OF nk])
  have e: "props (normalize_rows ?rows') = ?ps"
    if "rows = []" and tr: "list_all (\<lambda>e. through_row (snd e) = snd e) ?ps"
  proof -
    have keys: "\<And>e. e \<in> set ?ps \<Longrightarrow> toLowerCase (fst e) = fst e"
      using nk by (auto simp: normalized_keys_def list_all_iff)
    have "map entry_of_row (map row_of_entry ?ps) = map (\<lambda>e. (toLowerCase (fst e), through_row (snd e))) ?ps"
      using entry_of_row_of_entry by (simp add: lower_key_def entry_of_row_def row_of_entry_def
          coworker_of_row_def through_row_def or_absent_idem)
    also have "\<dots> = ?ps"
      using keys tr by (induction ?ps) (auto simp: list_all_iff intro!: map_idI)
    finally show ?thesis
      using that(1) by (simp add: normalize_rows_entries props_normalize_entries_id[OF nk])
  qed
  from sv m e show ?thesis by auto
qed

lemma lower_alice: "toLowerCase ''alice'' = ''alice''"
  by code_simp

lemma lower_bob: "toLowerCase ''bob'' = ''bob''"
  by code_simp

lemma save_bob_beside_alice:
  "save_then_load_db \<lparr>props = [(''bob'', bob_record)], proto = None\<rparr> (Table [alice_row]) =
     Inr \<lparr>props = [(''alice'', alice_record), (''bob'', bob_record)], proto = None\<rparr>"
  by (simp add: save_then_load_db_def saveCoworkers_db_def loadCoworkers_db_def normalize_rows_def
        insert_or_replace_def row_of_entry_def alice_row_def alice_record_def bob_record_def
        coworker_of_row_def setProp_def emptyObject_def lower_alice lower_bob)

lemma empty_parentId_lost_db:
  "save_then_load_db
     \<lparr>props = [(''bob'', bob_record\<lparr>parentId := Some ''''\<rparr>)], proto = None\<rparr> NoDb =
     Inr \<lparr>props = [(''bob'', bob_record\<lparr>parentId := None\<rparr>)], proto = None\<rparr>"
  by (simp add: save_then_load_db_def saveCoworkers_db_def loadCoworkers_db_def normalize_rows_def
        insert_or_replace_def row_of_entry_def bob_record_def
        coworker_of_row_def setProp_def emptyObject_def lower_bob)

section \<open>The variants side by side\<close>













section \<open>Telling and removing\<close>

lemma tell_not_found_file:
  "getProp (loadCoworkers_file (store w)) (toLowerCase n) = Undefined
     \<Longrightarrow> tellCoworker_file n m w = (not_found_text (toLowerCase n), w)"
  by (simp add: tellCoworker_file_def Let_def)

lemma tell_forwards_file:
  "map_of (props (loadCoworkers_file (store w))) (toLowerCase n) = Some c
     \<Longrightarrow> tellCoworker_file n m w =
           (queued_text (toLowerCase n) (Obj c),
            w\<lparr>calls := calls w @ [SessionPrompt (Some (sessionId c)) m None]\<rparr>)"
  by (simp add: tellCoworker_file_def Let_def getProp_own)

lemma tell_not_found_db:
  "loadCoworkers_db (store w) = Inr (obj, d) \<Longrightarrow> getProp obj (toLowerCase n) = Undefined
     \<Longrightarrow> tellCoworker_db n m w = (Inr (not_found_text (toLowerCase n)), w\<lparr>store := d\<rparr>)"
  by (simp add: tellCoworker_db_def Let_def)

lemma tell_forwards_db:
  "loadCoworkers_db (store w) = Inr (obj, d) \<Longrightarrow> map_of (props obj) (toLowerCase n) = Some c
     \<Longrightarrow> tellCoworker_db n m w =
           (Inr (queued_text (toLowerCase n) (Obj c)),
            w\<lparr>store := d, calls := calls w @ [SessionPrompt (Some (sessionId c)) m None]\<rparr>)"
  by (simp add: tellCoworker_db_def Let_def getProp_own)

lemma remove_not_found_db:
  "loadCoworkers_db (store w) = Inr (obj, d) \<Longrightarrow> getProp obj (toLowerCase n) = Undefined
     \<Longrightarrow> removeCoworker_db n w = (Inr (not_found_text (toLowerCase n)), w\<lparr>store := d\<rparr>)"
  by (simp add: removeCoworker_db_def Let_def)

lemma remove_present_db:
  assumes "loadCoworkers_db (store w) = Inr (obj, d)"
    and "map_of (props obj) (toLowerCase n) = Some c"
  shows "\<exists>rows. getDb (store w) = Inr rows \<and>
           removeCoworker_db n w =
             (Inr (removed_text (toLowerCase n) (Obj c)),
              w\<lparr>store := Table (delete_row (toLowerCase n) rows),
                 activeSessions := (activeSessions w)(sessionId c := None),
                 sessionParents := (sessionParents w)(sessionId c := None)\<rparr>)"
proof -
  from loadCoworkers_db_cases[OF assms(1)] obtain rows where
    rows: "getDb (store w) = Inr rows" "d = Table rows" by blast
  show ?thesis
    using assms rows by (simp add: removeCoworker_db_def Let_def getProp_own)
qed

section \<open>The claims\<close>



text \<open>
  Claim C6. When a create of a free name gets no session identifier from the service
  (\<open>result.data?.id\<close> is undefined, or the empty string), it returns the text
  \<open>Error: Failed to create session\<close>; the only service call is the session creation,
  so no prompt is sent; the stored records are not written and both in-memory maps are
  unchanged. In the embedded-table variant the store afterwards is the opened database
  \<open>d\<close>, which holds the rows it held before.
\<close>

theorem create_upstream_failure:
  assumes none: "or_absent r = None"
  shows "(\<not> truthy (getProp (loadCoworkers_file (store fw)) (toLowerCase n)) \<longrightarrow>
            fst (createCoworker_file n a p s r t fw) = ''Error: Failed to create session'' \<and>
            calls (snd (createCoworker_file n a p s r t fw)) =
              calls fw @ [SessionCreate (Some s) (title_text n (nullish a ''code''))] \<and>
            store (snd (createCoworker_file n a p s r t fw)) = store fw \<and>
            activeSessions (snd (createCoworker_file n a p s r t fw)) = activeSessions fw \<and>
            sessionParents (snd (createCoworker_file n a p s r t fw)) = sessionParents fw) \<and>
         (loadCoworkers_db (store dw) = Inr (obj, d) \<and> \<not> truthy (getProp obj (toLowerCase n)) \<longrightarrow>
            fst (createCoworker_db n a p s r t dw) = Inr ''Error: Failed to create session'' \<and>
            calls (snd (createCoworker_db n a p s r t dw)) =
              calls dw @ [SessionCreate None (title_text n (nullish a ''general''))] \<and>
            store (snd (createCoworker_db n a p s r t dw)) = d \<and>
            getDb d = getDb (store dw) \<and>
            activeSessions (snd (createCoworker_db n a p s r t dw)) = activeSessions dw \<and>
            sessionParents (snd (createCoworker_db n a p s r t dw)) = sessionParents dw)"
proof (intro conjI impI)
  assume "loadCoworkers_db (store dw) = Inr (obj, d) \<and> \<not> truthy (getProp obj (toLowerCase n))"
  then show "getDb d = getDb (store dw)"
    by (auto dest!: loadCoworkers_db_cases)
qed (simp_all add: createCoworker_file_def createCoworker_db_def Let_def none)

theorem create_upstream_failure_witness:
  "or_absent None = None \<and>
   \<not> truthy (getProp (loadCoworkers_file (store (fresh_world NoFile))) (toLowerCase ''Bob'')) \<and>
   loadCoworkers_db (store (fresh_world NoDb)) = Inr (emptyObject, Table []) \<and>
   \<not> truthy (getProp emptyObject (toLowerCase ''Bob'')) \<and>
   fst (createCoworker_file ''Bob'' None ''hello'' ''c1'' None ''t1'' (fresh_world NoFile)) =
     ''Error: Failed to create session'' \<and>
   calls (snd (createCoworker_file ''Bob'' None ''hello'' ''c1'' None ''t1'' (fresh_world NoFile))) =
     [SessionCreate (Some ''c1'') ''Bob (code)''] \<and>
   store (snd (createCoworker_file ''Bob'' None ''hello'' ''c1'' None ''t1'' (fresh_world NoFile))) = NoFile \<and>
   fst (createCoworker_db ''Bob'' None ''hello'' ''c1'' None ''t1'' (fresh_world NoDb)) =
     Inr ''Error: Failed to create session'' \<and>
   calls (snd (createCoworker_db ''Bob'' None ''hello'' ''c1'' None ''t1'' (fresh_world NoDb))) =
     [SessionCreate None ''Bob (general)''] \<and>
   store (snd (createCoworker_db ''Bob'' None ''hello'' ''c1'' None ''t1'' (fresh_world NoDb))) = Table []"
proof -
  have h1: "or_absent None = None" by simp
  have h3: "\<not> truthy (getProp (loadCoworkers_file (store (fresh_world NoFile))) (toLowerCase ''Bob''))"
    by code_simp
  have h4: "loadCoworkers_db (store (fresh_world NoDb)) = Inr (emptyObject, Table [])"
    by (simp add: fresh_world_def loadCoworkers_db_def normalize_rows_def)
  have h5: "\<not> truthy (getProp emptyObject (toLowerCase ''Bob''))" by code_simp
  note t = create_upstream_failure[OF h1,
      of "fresh_world NoFile" "''Bob''" None "''hello''" "''c1''" "''t1''"
         "fresh_world NoDb" emptyObject "Table []"]
  from t h3 h4 h5 show ?thesis
    by (simp add: title_text_def fresh_world_def)
qed

text \<open>
  Claim C3, as the code has it. A successful create sends, right after the session
  creation, one prompt to the new session, tagged with the agent type (the default is
  \<open>code\<close> in the structured-file variant and \<open>general\<close> in the embedded-table
  variant). In the embedded-table variant its text is \<open>IMPORTANT: your name is '<name as
  typed>'. \<close> followed by the caller's prompt; in the structured-file variant its text
  is the caller's prompt alone.
\<close>

theorem create_first_prompt:
  assumes some: "or_absent r = Some new_id"
  shows "(\<not> truthy (getProp (loadCoworkers_file (store fw)) (toLowerCase n)) \<longrightarrow>
            calls (snd (createCoworker_file n a p s r t fw)) =
              calls fw @ [SessionCreate (Some s) (title_text n (nullish a ''code'')),
                          SessionPrompt (Some new_id) p (Some (nullish a ''code''))]) \<and>
         (loadCoworkers_db (store dw) = Inr (obj, d) \<and> \<not> truthy (getProp obj (toLowerCase n)) \<longrightarrow>
            calls (snd (createCoworker_db n a p s r t dw)) =
              calls dw @ [SessionCreate None (title_text n (nullish a ''general'')),
                          SessionPrompt (Some new_id)
                            (''IMPORTANT: your name is '' @ sq @ n @ sq @ ''. '' @ p)
                            (Some (nullish a ''general''))])"
proof (intro conjI impI)
  assume "\<not> truthy (getProp (loadCoworkers_file (store fw)) (toLowerCase n))"
  then show "calls (snd (createCoworker_file n a p s r t fw)) =
              calls fw @ [SessionCreate (Some s) (title_text n (nullish a ''code'')),
                          SessionPrompt (Some new_id) p (Some (nullish a ''code''))]"
    by (simp add: createCoworker_file_def Let_def some)
next
  assume "loadCoworkers_db (store dw) = Inr (obj, d) \<and> \<not> truthy (getProp obj (toLowerCase n))"
  then have load: "loadCoworkers_db (store dw) = Inr (obj, d)"
    and free: "\<not> truthy (getProp obj (toLowerCase n))" by simp_all
  from reload_db_after_set[OF load free] obtain rows' where
    "saveCoworkers_db (setProp obj (toLowerCase n)
        \<lparr>sessionId = new_id, agentType = nullish a ''general'', createdAt = t, parentId = Some s\<rparr>) d
      = Inr (Table rows')"
    by blast
  then show "calls (snd (createCoworker_db n a p s r t dw)) =
              calls dw @ [SessionCreate None (title_text n (nullish a ''general'')),
                          SessionPrompt (Some new_id)
                            (''IMPORTANT: your name is '' @ sq @ n @ sq @ ''. '' @ p)
                            (Some (nullish a ''general''))]"
    using load free by (simp add: createCoworker_db_def Let_def some)
qed

theorem create_first_prompt_witness:
  \<open>or_absent (Some ''s1'') = Some ''s1'' \<and>
   \<not> truthy (getProp (loadCoworkers_file (store (fresh_world NoFile))) (toLowerCase ''Bob'')) \<and>
   loadCoworkers_db (store (fresh_world NoDb)) = Inr (emptyObject, Table []) \<and>
   \<not> truthy (getProp emptyObject (toLowerCase ''Bob'')) \<and>
   calls (snd (createCoworker_file ''Bob'' (Some ''researcher'') ''Investigate X'' ''c1'' (Some ''s1'') ''t1''
            (fresh_world NoFile))) =
     [SessionCreate (Some ''c1'') ''Bob (researcher)'',
      SessionPrompt (Some ''s1'') ''Investigate X'' (Some ''researcher'')] \<and>
   calls (snd (createCoworker_db ''Bob'' (Some ''researcher'') ''Investigate X'' ''c1'' (Some ''s1'') ''t1''
            (fresh_world NoDb))) =
     [SessionCreate None ''Bob (researcher)'',
      SessionPrompt (Some ''s1'') (''IMPORTANT: your name is '' @ sq @ ''Bob'' @ sq @ ''. Investigate X'')
        (Some ''researcher'')]\<close>
proof -
  have h1: "or_absent (Some ''s1'') = Some ''s1''" by simp
  have h3: "\<not> truthy (getProp (loadCoworkers_file (store (fresh_world NoFile))) (toLowerCase ''Bob''))"
    by code_simp
  have h4: "loadCoworkers_db (store (fresh_world NoDb)) = Inr (emptyObject, Table [])"
    by (simp add: fresh_world_def loadCoworkers_db_def normalize_rows_def)
  have h5: "\<not> truthy (getProp emptyObject (toLowerCase ''Bob''))" by code_simp
  note t = create_first_prompt[OF h1,
      where fw = "fresh_world NoFile" and n = "''Bob''" and s = "''c1''" and a = "Some ''researcher''"
        and p = "''Investigate X''" and t = "''t1''" and dw = "fresh_world NoDb"
        and obj = emptyObject and d = "Table []"]
  from t h3 h4 h5 show ?thesis
    by (simp add: title_text_def fresh_world_def)
qed

text \<open>
  Claim C3 as stated fails in the structured-file variant: the prompt sent for the
  coworker \<open>Bob\<close> is the caller's text \<open>Investigate X\<close> with no preamble.
\<close>

theorem create_first_prompt_file_counterexample:
  "calls (snd (createCoworker_file ''Bob'' None ''Investigate X'' ''c1'' (Some ''s1'') ''t1''
            (fresh_world NoFile))) =
     [SessionCreate (Some ''c1'') ''Bob (code)'',
      SessionPrompt (Some ''s1'') ''Investigate X'' (Some ''code'')] \<and>
   ''Investigate X'' \<noteq> ''IMPORTANT: your name is '' @ sq @ ''Bob'' @ sq @ ''. '' @ ''Investigate X''"
  by code_simp



text \<open>
  Claim C7 at the name \<open>constructor\<close>, which no store holds: the lookup
  \<open>coworkers[name]\<close> finds the function inherited from \<open>Object.prototype\<close>, which is
  truthy, so \<open>tell_coworker\<close> does not answer "not found" but sends the message to the
  session \<open>undefined\<close>.
\<close>

theorem tell_inherited_name_file:
  \<open>tellCoworker_file ''constructor'' ''hi'' (fresh_world NoFile) =
     (''Queued message to "constructor" (undefined)'',
      (fresh_world NoFile)\<lparr>calls := [SessionPrompt None ''hi'' None]\<rparr>)\<close>
proof -
  have lc: "toLowerCase ''constructor'' = ''constructor''" by code_simp
  have gp: "getProp emptyObject ''constructor'' = Builtin"
    by (simp add: getProp_def emptyObject_def object_prototype_names_def)
  show ?thesis
    by (simp add: tellCoworker_file_def Let_def lc gp fresh_world_def queued_text_def dq_def)
qed

text \<open>
  Claim C8 at the name \<open>constructor\<close>, which no store holds: for the same reason
  \<open>remove_coworker\<close> does not answer "not found" but reports a removal.
\<close>

theorem remove_inherited_name_db:
  \<open>removeCoworker_db ''constructor'' (fresh_world NoDb) =
     (Inr ''Removed coworker "constructor" (undefined)'', fresh_world (Table []))\<close>
proof -
  have lc: "toLowerCase ''constructor'' = ''constructor''" by code_simp
  have gp: "getProp emptyObject ''constructor'' = Builtin"
    by (simp add: getProp_def emptyObject_def object_prototype_names_def)
  show ?thesis
    by (simp add: removeCoworker_db_def loadCoworkers_db_def normalize_rows_def Let_def lc gp
          fresh_world_def removed_text_def dq_def delete_row_def)
qed
text \<open>
  Claim C10. The maps \<open>activeSessions\<close> and \<open>sessionParents\<close> have the same key set:
  every tool of either variant keeps the equality, so it holds after every sequence of
  tool calls from a fresh process, whatever the store holds.
\<close>

theorem liveness_maps_same_keys:
  "(dom (activeSessions fw) = dom (sessionParents fw) \<longrightarrow>
      dom (activeSessions (step_file fc fw)) = dom (sessionParents (step_file fc fw))) \<and>
   (dom (activeSessions dw) = dom (sessionParents dw) \<longrightarrow>
      dom (activeSessions (step_db dc dw)) = dom (sessionParents (step_db dc dw))) \<and>
   dom (activeSessions (fold step_file fcs (fresh_world f))) =
     dom (sessionParents (fold step_file fcs (fresh_world f))) \<and>
   dom (activeSessions (fold step_db dcs (fresh_world d))) =
     dom (sessionParents (fold step_db dcs (fresh_world d)))"
proof (intro conjI impI)
  have f0: "same_keys (fresh_world f)" and d0: "same_keys (fresh_world d)"
    by (simp_all add: same_keys_def fresh_world_def)
  show "dom (activeSessions (fold step_file fcs (fresh_world f))) =
     dom (sessionParents (fold step_file fcs (fresh_world f)))"
    using same_keys_fold_file[OF f0] by (simp add: same_keys_def)
  show "dom (activeSessions (fold step_db dcs (fresh_world d))) =
     dom (sessionParents (fold step_db dcs (fresh_world d)))"
    using same_keys_fold_db[OF d0] by (simp add: same_keys_def)
next
  assume "dom (activeSessions fw) = dom (sessionParents fw)"
  then show "dom (activeSessions (step_file fc fw)) = dom (sessionParents (step_file fc fw))"
    using same_keys_step_file[of fw fc] by (simp add: same_keys_def)
next
  assume "dom (activeSessions dw) = dom (sessionParents dw)"
  then show "dom (activeSessions (step_db dc dw)) = dom (sessionParents (step_db dc dw))"
    using same_keys_step_db[of dw dc] by (simp add: same_keys_def)
qed

theorem liveness_maps_same_keys_witness:
  "dom (activeSessions (fresh_world NoFile)) = dom (sessionParents (fresh_world NoFile)) \<and>
   dom (activeSessions (step_file (FCreate ''Bob'' (Some ''code'') ''hello'' ''c1'' (Some ''s1'') ''t1'')
          (fresh_world NoFile))) = {''s1''} \<and>
   dom (sessionParents (step_file (FCreate ''Bob'' (Some ''code'') ''hello'' ''c1'' (Some ''s1'') ''t1'')
          (fresh_world NoFile))) = {''s1''} \<and>
   dom (activeSessions (fold step_db
          [DCreate ''Bob'' (Some ''code'') ''hello'' ''c1'' (Some ''s1'') ''t1'', DRemove ''BOB'']
          (fresh_world NoDb))) = {} \<and>
   dom (sessionParents (fold step_db
          [DCreate ''Bob'' (Some ''code'') ''hello'' ''c1'' (Some ''s1'') ''t1'', DRemove ''BOB'']
          (fresh_world NoDb))) = {}"
proof -
  let ?fc = "FCreate ''Bob'' (Some ''code'') ''hello'' ''c1'' (Some ''s1'') ''t1''"
  let ?dcs = "[DCreate ''Bob'' (Some ''code'') ''hello'' ''c1'' (Some ''s1'') ''t1'', DRemove ''BOB'']"
  have h: "dom (activeSessions (fresh_world NoFile)) = dom (sessionParents (fresh_world NoFile))"
    by (simp add: fresh_world_def)
  have a: "dom (activeSessions (step_file ?fc (fresh_world NoFile))) = {''s1''}"
    by (simp add: create_bob_file)
  have b: "dom (activeSessions (fold step_db ?dcs (fresh_world NoDb))) = {}"
    by (simp add: create_bob_db remove_bob_db)
  note t = liveness_maps_same_keys[where fw = "fresh_world NoFile" and fc = ?fc and dcs = ?dcs and d = NoDb]
  from t h a have a': "dom (sessionParents (step_file ?fc (fresh_world NoFile))) = {''s1''}"
    by simp
  from t b have b': "dom (sessionParents (fold step_db ?dcs (fresh_world NoDb))) = {}"
    by simp
  show ?thesis by (intro conjI h a a' b b')
qed



text \<open>
  Claim C5, as the code has it. Let the keys of the saved mapping be normalized, as
  they are in every mapping the tools save. In the structured-file variant loading after
  saving returns exactly the saved entries. In the embedded-table variant, when no saved
  record has the empty string as \<open>parentId\<close>, loading after saving returns every saved
  key with the saved record, and besides them the records the table already held under
  other names: saving inserts or replaces rows and deletes none. On a table without rows
  it returns exactly the saved entries.
\<close>

theorem save_then_load_round_trip:
  assumes nk: "normalized_keys (props coworkers)"
  shows "props (loadCoworkers_file (saveCoworkers_file coworkers)) = props coworkers \<and>
         (getDb d = Inr rows \<and> list_all (\<lambda>e. parentId (snd e) \<noteq> Some []) (props coworkers) \<longrightarrow>
            (case save_then_load_db coworkers d of
               Inl e \<Rightarrow> False
             | Inr obj \<Rightarrow>
                 map_of (props obj) = map_of (props (normalize_rows rows)) ++ map_of (props coworkers) \<and>
                 (rows = [] \<longrightarrow> props obj = props coworkers)))"
proof (intro conjI impI)
  show "props (loadCoworkers_file (saveCoworkers_file coworkers)) = props coworkers"
    by (simp add: saveCoworkers_file_def props_normalize_entries_id[OF nk])
next
  assume "getDb d = Inr rows \<and> list_all (\<lambda>e. parentId (snd e) \<noteq> Some []) (props coworkers)"
  then have g: "getDb d = Inr rows"
    and tr: "list_all (\<lambda>e. through_row (snd e) = snd e) (props coworkers)"
    by (simp_all add: list_all_iff through_row_id)
  from save_then_load_db_map[OF nk g] obtain obj where
    "save_then_load_db coworkers d = Inr obj"
    "map_of (props obj) =
       map_of (props (normalize_rows rows)) ++ (map_option through_row \<circ> map_of (props coworkers))"
    "rows = [] \<and> list_all (\<lambda>e. through_row (snd e) = snd e) (props coworkers)
       \<longrightarrow> props obj = props coworkers"
    by blast
  then show "case save_then_load_db coworkers d of
               Inl e \<Rightarrow> False
             | Inr obj \<Rightarrow>
                 map_of (props obj) = map_of (props (normalize_rows rows)) ++ map_of (props coworkers) \<and>
                 (rows = [] \<longrightarrow> props obj = props coworkers)"
    using tr by (simp add: map_option_through_row_id)
qed

theorem save_then_load_round_trip_witness:
  "normalized_keys (props \<lparr>props = [(''bob'', bob_record)], proto = None\<rparr>) \<and>
   getDb (Table [alice_row]) = Inr [alice_row] \<and>
   list_all (\<lambda>e. parentId (snd e) \<noteq> Some []) (props \<lparr>props = [(''bob'', bob_record)], proto = None\<rparr>) \<and>
   props (loadCoworkers_file (saveCoworkers_file \<lparr>props = [(''bob'', bob_record)], proto = None\<rparr>)) =
     [(''bob'', bob_record)] \<and>
   map_of [(''alice'', alice_record), (''bob'', bob_record)] =
     map_of (props (normalize_rows [alice_row])) ++ map_of [(''bob'', bob_record)]"
proof -
  let ?c = "\<lparr>props = [(''bob'', bob_record)], proto = None\<rparr>"
  have h1: "normalized_keys (props ?c)" by code_simp
  have h2: "getDb (Table [alice_row]) = Inr [alice_row]" by simp
  have h3: "list_all (\<lambda>e. parentId (snd e) \<noteq> Some []) (props ?c)"
    by (simp add: bob_record_def)
  note t = save_then_load_round_trip[OF h1, where d = "Table [alice_row]" and rows = "[alice_row]"]
  from t have c1: "props (loadCoworkers_file (saveCoworkers_file ?c)) = [(''bob'', bob_record)]"
    by simp
  from t h2 h3 have c2: "map_of [(''alice'', alice_record), (''bob'', bob_record)] =
     map_of (props (normalize_rows [alice_row])) ++ map_of [(''bob'', bob_record)]"
    by (simp add: save_bob_beside_alice)
  show ?thesis by (intro conjI h1 h2 h3 c1 c2)
qed

text \<open>
  Claim C5 as stated fails in the embedded-table variant: saving the mapping with the
  single key \<open>bob\<close> to a table that holds a row \<open>alice\<close> and loading again yields the
  keys \<open>alice\<close> and \<open>bob\<close>.
\<close>

theorem save_then_load_db_keeps_other_rows_counterexample:
  "map fst (props \<lparr>props = [(''bob'', bob_record)], proto = None\<rparr>) = [''bob''] \<and>
   save_then_load_db \<lparr>props = [(''bob'', bob_record)], proto = None\<rparr> (Table [alice_row]) =
     Inr \<lparr>props = [(''alice'', alice_record), (''bob'', bob_record)], proto = None\<rparr>"
  by (simp add: save_bob_beside_alice)




end
